theory Spec2Isabelle
  imports Main "HOL-Library.Sublist" "HOL-Library.AList" "HOL-Library.Multiset"
begin

section \<open>JavaScript values and the built-ins the services call\<close>

text \<open>
  The services are written in JavaScript (Node): \<^verbatim>\<open>listen.js\<close> (the second document of
  \<^verbatim>\<open>src/src/index.js\<close>) and the two variants of \<^verbatim>\<open>receipts.js\<close>. A configuration value
  such as a hook's \<^verbatim>\<open>delay\<close> is absent, a number or a string.
\<close>

datatype js_val = Undefined | Num int | Str string

text \<open>JavaScript truthiness, as \<^verbatim>\<open>hookDef.delay ? ... : 0\<close> tests it.\<close>

fun truthy :: "js_val \<Rightarrow> bool" where
  "truthy Undefined = False"
| "truthy (Num n) = (n \<noteq> 0)"
| "truthy (Str s) = (s \<noteq> [])"

text \<open>
  A property that holds a string or \<^verbatim>\<open>null\<close> (\<open>None\<close>), as \<^verbatim>\<open>sender.user_id\<close> and
  \<^verbatim>\<open>sender.name\<close> do: it is truthy when it is a non-empty string.
\<close>

definition truthy_str :: "string option \<Rightarrow> bool" where
  "truthy_str v = (case v of None \<Rightarrow> False | Some s \<Rightarrow> s \<noteq> [])"

text \<open>
  \<^verbatim>\<open>String.prototype.indexOf\<close>: the position of the first occurrence of \<open>x\<close> in \<open>s\<close>,
  or \<open>-1\<close>.
\<close>

fun indexOf :: "string \<Rightarrow> string \<Rightarrow> int" where
  "indexOf [] x = (if x = [] then 0 else -1)"
| "indexOf (c # s) x =
     (if prefix x (c # s) then 0
      else (let r = indexOf s x in if r < 0 then -1 else r + 1))"

text \<open>\<^verbatim>\<open>Array.prototype.indexOf\<close>: the position of the first element equal to \<open>x\<close>, or \<open>-1\<close>.\<close>

fun array_indexOf :: "'a list \<Rightarrow> 'a \<Rightarrow> int" where
  "array_indexOf [] x = -1"
| "array_indexOf (y # ys) x =
     (if y = x then 0
      else (let r = array_indexOf ys x in if r < 0 then -1 else r + 1))"

text \<open>
  An object is the list of its own properties in the order of their creation, with
  distinct keys. \<^verbatim>\<open>Object.keys\<close> lists the keys that are array indices first (canonical
  decimal numerals below \<open>2^32 - 1\<close>), in ascending numeric order, and then the other
  keys in the order of their creation.
\<close>

definition digit :: "char \<Rightarrow> bool" where
  "digit c = (c \<in> set ''0123456789'')"

definition digit_value :: "char \<Rightarrow> int" where
  "digit_value c = of_char c - 48"

definition index_value :: "string \<Rightarrow> int" where
  "index_value s = foldl (\<lambda>n c. 10 * n + digit_value c) 0 s"

definition is_array_index :: "string \<Rightarrow> bool" where
  "is_array_index s =
     (s \<noteq> [] \<and> list_all digit s \<and> (hd s = CHR ''0'' \<longrightarrow> s = ''0'') \<and>
      index_value s < 4294967295)"

definition Object_keys :: "(string \<times> 'v) list \<Rightarrow> string list" where
  "Object_keys obj =
     (let ks = map fst obj
      in sort_key index_value (filter is_array_index ks) @
         filter (\<lambda>k. \<not> is_array_index k) ks)"

text \<open>
  \<^verbatim>\<open>JSON.stringify\<close> writes the properties of an object in that same order: the array
  indices first, ascending, then the other keys in the order of their creation.
\<close>

definition stringify_order :: "(string \<times> 'v) list \<Rightarrow> (string \<times> 'v) list" where
  "stringify_order obj =
     sort_key (\<lambda>p. index_value (fst p)) (filter (\<lambda>p. is_array_index (fst p)) obj) @
     filter (\<lambda>p. \<not> is_array_index (fst p)) obj"

section \<open>Messages, webhook events and jobs\<close>

text \<open>
  A REST Message object as the webhooks carry it: \<^verbatim>\<open>message.id\<close>, \<^verbatim>\<open>message.sender\<close> with
  its \<^verbatim>\<open>user_id\<close> and \<^verbatim>\<open>name\<close> (one of them \<^verbatim>\<open>null\<close>), the \<^verbatim>\<open>recipient_status\<close> object
  and the remaining fields, which the services only pass on.
\<close>

record sender_obj =
  user_id :: "string option"
  sender_name :: "string option"

record message_obj =
  message_id :: string
  sender :: sender_obj
  recipient_status :: "(string \<times> string) list"
  parts :: string

text \<open>
  The text \<^verbatim>\<open>JSON.stringify(message)\<close> is kept abstract: the constructor is the
  serialiser and \<open>JSON_parse\<close> reads the object back. The objects serialised here were
  themselves read from JSON (the request body, then the job's data), so the round trip
  returns the same object.
\<close>

datatype json_text = JSON_stringify message_obj

fun JSON_parse :: "json_text \<Rightarrow> message_obj" where
  "JSON_parse (JSON_stringify m) = m"

text \<open>
  The recipient-status map of a stored snapshot, as the stored text lists it:
  \<^verbatim>\<open>JSON.stringify\<close> wrote the user ids in the order above, and \<^verbatim>\<open>JSON.parse\<close> creates the
  properties in the order of the text, which \<^verbatim>\<open>Object.keys\<close> then keeps.
\<close>

definition stored_recipient_status :: "json_text \<Rightarrow> (string \<times> string) list" where
  "stored_recipient_status snapshot = stringify_order (recipient_status (JSON_parse snapshot))"

text \<open>The body of a webhook POST: \<^verbatim>\<open>req.body.event\<close>, \<^verbatim>\<open>.message\<close>, \<^verbatim>\<open>.conversation\<close>, \<^verbatim>\<open>.config.name\<close>.\<close>

record webhook_body =
  event_type :: string
  event_created_at :: string
  body_conversation :: "string option"
  body_message :: "message_obj option"
  config_name :: string

text \<open>The data of the job the listener creates, which the event processor reads back.\<close>

record webhook_event =
  title :: string
  timestamp :: string
  type :: string
  conversation :: "string option"
  event_message :: "message_obj option"

text \<open>An identity record as the enrichment stores it: \<^verbatim>\<open>null\<close> or the response's body.\<close>

datatype identity = Null | Identity string

datatype job_data =
    Event webhook_event
  | Delayed_check string string
  | Notification message_obj "string list" "(string \<times> identity) list"
  | Notification_v1 message_obj "string list"

text \<open>
  A Kue job as \<^verbatim>\<open>queue.createJob(type, data)\<close> builds it, with what \<^verbatim>\<open>.delay\<close>,
  \<^verbatim>\<open>.attempts\<close> and \<^verbatim>\<open>.backoff\<close> set before \<^verbatim>\<open>.save\<close>; \<open>job_delay\<close> is \<open>None\<close> when
  \<^verbatim>\<open>.delay\<close> is not called.
\<close>

record job =
  job_type :: string
  data :: job_data
  job_delay :: "js_val option"
  attempts :: nat
  backoff :: "string \<times> nat"

section \<open>The listener (listen.js)\<close>

text \<open>\<^verbatim>\<open>var delay = hookDef.delay ? ms(hookDef.delay) : 0\<close>; \<open>ms\<close> is the npm package.\<close>

definition listen_delay :: "(js_val \<Rightarrow> js_val) \<Rightarrow> js_val \<Rightarrow> js_val" where
  "listen_delay ms d = (if truthy d then ms d else Num 0)"

text \<open>
  \<^verbatim>\<open>handleValidation\<close>: the header's signature against the hex HMAC-SHA1 of the
  re-serialised body (\<open>utf8safe\<close>); \<open>hmac_sha1_hex\<close> is Node's \<^verbatim>\<open>crypto\<close>. The result is
  whether \<^verbatim>\<open>next()\<close> is called; otherwise the response is 403.
\<close>

definition handleValidation ::
  "(string \<Rightarrow> string \<Rightarrow> string) \<Rightarrow> string \<Rightarrow> string \<Rightarrow> string option \<Rightarrow> bool" where
  "handleValidation hmac_sha1_hex secret utf8safe signature =
     (Some (hmac_sha1_hex secret utf8safe) = signature)"

text \<open>
  The job the POST handler creates for an event, and the handler itself, which closes
  over \<open>webhookName\<close> and \<open>delay\<close>: the status it sends and the jobs it saves.
\<close>

definition event_job :: "string \<Rightarrow> js_val \<Rightarrow> webhook_body \<Rightarrow> job" where
  "event_job webhookName delay body =
     \<lparr> job_type = webhookName,
       data = Event \<lparr> title = webhookName, timestamp = event_created_at body,
                      type = event_type body, conversation = body_conversation body,
                      event_message = body_message body \<rparr>,
       job_delay = Some delay, attempts = 10, backoff = (''exponential'', 10000) \<rparr>"

definition post_handler :: "string \<Rightarrow> js_val \<Rightarrow> webhook_body \<Rightarrow> nat \<times> job list" where
  "post_handler webhookName delay body =
     (if config_name body \<noteq> webhookName \<and>
         indexOf webhookName (config_name body @ '':'') \<noteq> 0
      then (400, [])
      else (case body_message body of
              None \<Rightarrow> (200, [event_job webhookName delay body])
            | Some m \<Rightarrow>
                if truthy_str (user_id (sender m))
                then (200, [event_job webhookName delay body])
                else (200, [])))"

definition app_post ::
  "(string \<Rightarrow> string \<Rightarrow> string) \<Rightarrow> string \<Rightarrow> string \<Rightarrow> js_val \<Rightarrow>
   string \<Rightarrow> string option \<Rightarrow> webhook_body \<Rightarrow> nat \<times> job list" where
  "app_post hmac_sha1_hex secret webhookName delay utf8safe signature body =
     (if handleValidation hmac_sha1_hex secret utf8safe signature
      then post_handler webhookName delay body
      else (403, []))"

section \<open>The receipts service (receipts.js, second variant)\<close>

text \<open>
  \<^verbatim>\<open>hook.receipts.identities\<close>: falsy (no enrichment), a function (the caller's
  resolver, which answers a user id with \<^verbatim>\<open>callback(err, data)\<close>), or any other truthy
  value (the Layer Identity Server through \<^verbatim>\<open>getUserFromIdentities\<close>).
\<close>

datatype identities_cfg =
    Off
  | Builtin
  | Custom "string option \<Rightarrow> string option \<times> identity"

record receipts_cfg =
  receipts_delay :: js_val
  reportForStatus :: "string list"
  identities :: identities_cfg

text \<open>
  A hook definition as the caller writes it, and the hook \<^verbatim>\<open>options.hooks.map\<close> makes
  of it, which adds \<^verbatim>\<open>originalName\<close> and has no \<^verbatim>\<open>delay\<close> of its own.
\<close>

record hook =
  name :: string
  path :: string
  events :: "string list"
  delay :: js_val
  receipts :: receipts_cfg

record receipts_hook = hook +
  originalName :: string

definition REDIS_PREFIX :: string where
  "REDIS_PREFIX = ''layer-webhooks-''"

text \<open>The callback of \<^verbatim>\<open>options.hooks.map\<close>; \<open>ms\<close> is the npm package.\<close>

definition receipts_map :: "(js_val \<Rightarrow> js_val) \<Rightarrow> hook \<Rightarrow> receipts_hook" where
  "receipts_map ms hook =
     \<lparr> name = name hook @ '':receipts'',
       path = path hook,
       events = events hook,
       delay = Undefined,
       receipts = \<lparr> receipts_delay = ms (delay hook),
                    reportForStatus = reportForStatus (receipts hook),
                    identities = identities (receipts hook) \<rparr>,
       originalName = name hook \<rparr>"

text \<open>
  What a handler does, in order: calls on the redis client (\<^verbatim>\<open>set\<close> with the arguments
  after the key and the value, here always none), jobs saved on the queue, user ids
  handed to the identity resolver, and calls of \<^verbatim>\<open>done()\<close>. A handler returns or throws.
  The calls on redis and the saves are taken to succeed: the code passes redis no
  callback, and a failed save is only logged.
\<close>

datatype effect =
    Redis_set string json_text "string list"
  | Redis_get string
  | Redis_del string
  | Create_job job
  | Get_user "string option"
  | Done

datatype outcome = Returned | Threw string

definition redis_key :: "receipts_hook \<Rightarrow> string \<Rightarrow> string" where
  "redis_key hook messageId = REDIS_PREFIX @ name hook @ ''-'' @ messageId"

definition delayed_check_job :: "receipts_hook \<Rightarrow> message_obj \<Rightarrow> job" where
  "delayed_check_job hook message =
     \<lparr> job_type = name hook @ '' delayed-job'',
       data = Delayed_check ''Process undelivered message'' (message_id message),
       job_delay = Some (receipts_delay (receipts hook)),
       attempts = 10, backoff = (''exponential'', 1000) \<rparr>"

text \<open>
  \<^verbatim>\<open>queue.process(hook.name, 50, ...)\<close>: the event processor. \<^verbatim>\<open>message.sender\<close> of an
  event without a message throws a TypeError inside the \<^verbatim>\<open>try\<close>; the \<^verbatim>\<open>finally\<close> calls
  \<^verbatim>\<open>done()\<close> and the exception leaves the handler. \<^verbatim>\<open>return done()\<close> calls \<^verbatim>\<open>done\<close>, and the
  \<^verbatim>\<open>finally\<close> calls it again.
\<close>

definition process_event :: "receipts_hook \<Rightarrow> webhook_event \<Rightarrow> effect list \<times> outcome" where
  "process_event hook event =
     (case event_message event of
        None \<Rightarrow> ([Done], Threw ''TypeError'')
      | Some message \<Rightarrow>
          if truthy_str (sender_name (sender message)) then ([Done, Done], Returned)
          else if type event = ''message.sent'' then
            ([Redis_set (redis_key hook (message_id message)) (JSON_stringify message) [],
              Create_job (delayed_check_job hook message),
              Done], Returned)
          else if type event = ''message.delivered'' \<or> type event = ''message.read'' then
            ([Redis_set (redis_key hook (message_id message)) (JSON_stringify message) [],
              Done], Returned)
          else if type event = ''message.deleted'' then
            ([Redis_del (redis_key hook (message_id message)), Done], Returned)
          else ([Done], Returned))"

text \<open>
  The recipients of \<^verbatim>\<open>processMessage\<close>: the keys of \<^verbatim>\<open>message.recipient_status\<close> whose
  status \<^verbatim>\<open>reportForStatus\<close> contains.
\<close>

definition recipients_of :: "string list \<Rightarrow> message_obj \<Rightarrow> string list" where
  "recipients_of statuses message =
     filter (\<lambda>userId.
               case map_of (recipient_status message) userId of
                 None \<Rightarrow> False
               | Some st \<Rightarrow> array_indexOf statuses st \<noteq> -1)
            (Object_keys (recipient_status message))"

definition createJob ::
  "receipts_hook \<Rightarrow> message_obj \<Rightarrow> string list \<Rightarrow> (string \<times> identity) list \<Rightarrow> job" where
  "createJob hook message recipients ids =
     \<lparr> job_type = originalName hook,
       data = Notification message recipients ids,
       job_delay = None, attempts = 10, backoff = (''exponential'', 1000) \<rparr>"

text \<open>
  \<^verbatim>\<open>getUserFromIdentities\<close>: \<open>identities_get\<close> is \<^verbatim>\<open>layerClient.identities.get\<close>, which
  answers with an error (\<open>Inl\<close>) or a response body (\<open>Inr\<close>); the result is the pair
  \<^verbatim>\<open>(err, identity)\<close> handed to the callback.
\<close>

definition getUserFromIdentities ::
  "(string option \<Rightarrow> string + string) \<Rightarrow> string option \<Rightarrow> string option \<times> identity" where
  "getUserFromIdentities identities_get userId =
     (case identities_get userId of
        Inl err \<Rightarrow> (Some err, Null)
      | Inr body \<Rightarrow> (None, Identity body))"

definition getUser ::
  "(string option \<Rightarrow> string + string) \<Rightarrow> identities_cfg \<Rightarrow>
   string option \<Rightarrow> string option \<times> identity" where
  "getUser identities_get cfg =
     (case cfg of
        Custom f \<Rightarrow> f
      | _ \<Rightarrow> getUserFromIdentities identities_get)"

text \<open>The property key a user id names in \<^verbatim>\<open>identityHash[userId]\<close>.\<close>

definition prop_key :: "string option \<Rightarrow> string" where
  "prop_key userId = (case userId of None \<Rightarrow> ''null'' | Some s \<Rightarrow> s)"

text \<open>
  The callbacks of the lookups, in the order in which they arrive: each stores its
  data under the user id, counts, and the one that brings the count to \<open>n\<close> (the number
  of ids asked for) creates the job.
\<close>

fun fan_in ::
  "receipts_hook \<Rightarrow> message_obj \<Rightarrow> string list \<Rightarrow> nat \<Rightarrow>
   (string option \<times> string option \<times> identity) list \<Rightarrow>
   (string \<times> identity) list \<Rightarrow> nat \<Rightarrow> effect list" where
  "fan_in hook message recipients n [] identityHash cnt = []"
| "fan_in hook message recipients n ((userId, err, d) # rest) identityHash cnt =
     (let identityHash' = AList.update (prop_key userId) d identityHash;
          cnt' = cnt + 1
      in (if cnt' = n then [Create_job (createJob hook message recipients identityHash')]
          else []) @
         fan_in hook message recipients n rest identityHash' cnt')"

text \<open>
  \<^verbatim>\<open>processMessage\<close>: what it does before it returns, and what the callbacks of the
  lookups do later. \<open>arrival\<close> is the order in which the lookups answer, a permutation
  of the ids asked for. (A caller's resolver may answer at once; saving the job before
  or after the snapshot is removed leaves redis and the queue the same.)
\<close>

definition processMessage ::
  "(string option \<Rightarrow> string + string) \<Rightarrow> receipts_hook \<Rightarrow> string option list \<Rightarrow>
   message_obj \<Rightarrow> effect list \<times> effect list" where
  "processMessage identities_get hook arrival message =
     (let recipients = recipients_of (reportForStatus (receipts hook)) message
      in if recipients \<noteq> [] then
           (let ids = user_id (sender message) # map Some recipients
            in case identities (receipts hook) of
                 Off \<Rightarrow> ([Create_job (createJob hook message recipients [])], [])
               | cfg \<Rightarrow>
                   (map Get_user ids,
                    fan_in hook message recipients (length ids)
                      (map (\<lambda>userId. (userId, getUser identities_get cfg userId)) arrival)
                      [] 0))
         else ([], []))"

text \<open>
  \<^verbatim>\<open>queue.process(hook.name + ' delayed-job', ...)\<close>: the read of the snapshot and its
  callback, given the reply (\<open>None\<close> when redis holds nothing under the key).
\<close>

definition delayed_job ::
  "(string option \<Rightarrow> string + string) \<Rightarrow> receipts_hook \<Rightarrow> string option list \<Rightarrow>
   string \<Rightarrow> json_text option \<Rightarrow> effect list" where
  "delayed_job identities_get hook arrival messageId reply =
     Redis_get (redis_key hook messageId) #
     (case reply of
        None \<Rightarrow> [Done]
      | Some reply_text \<Rightarrow>
          (let (now, later) = processMessage identities_get hook arrival (JSON_parse reply_text)
           in now @ [Redis_del (redis_key hook messageId), Done] @ later))"

section \<open>The receipts service (receipts.js, first variant)\<close>


definition processMessage_v1 :: "string \<Rightarrow> string list \<Rightarrow> message_obj \<Rightarrow> effect list" where
  "processMessage_v1 hook_originalName recipient_status_filter message =
     (let recipients = recipients_of recipient_status_filter message
      in if recipients \<noteq> [] then
           [Create_job \<lparr> job_type = hook_originalName,
                         data = Notification_v1 message recipients,
                         job_delay = None,
                         attempts = 10, backoff = (''exponential'', 1000) \<rparr>]
         else [])"

definition delayed_job_v1 ::
  "string \<Rightarrow> string list \<Rightarrow> string \<Rightarrow> json_text option \<Rightarrow> effect list" where
  "delayed_job_v1 hook_originalName recipient_status_filter messageId reply =
     Redis_get (REDIS_PREFIX @ messageId) #
     (case reply of
        None \<Rightarrow> [Done]
      | Some reply_text \<Rightarrow>
          processMessage_v1 hook_originalName recipient_status_filter (JSON_parse reply_text) @
          [Redis_del (REDIS_PREFIX @ messageId), Done])"

section \<open>Redis and the queue\<close>

text \<open>
  The state the handlers act on: what redis holds under each key, and the jobs saved
  on the queue, oldest first.
\<close>

record world =
  redis :: "string \<Rightarrow> json_text option"
  queue :: "job list"

fun exec :: "effect \<Rightarrow> world \<Rightarrow> world" where
  "exec (Redis_set k v args) w = w\<lparr> redis := (redis w)(k \<mapsto> v) \<rparr>"
| "exec (Redis_del k) w = w\<lparr> redis := (redis w)(k := None) \<rparr>"
| "exec (Create_job j) w = w\<lparr> queue := queue w @ [j] \<rparr>"
| "exec (Redis_get k) w = w"
| "exec (Get_user u) w = w"
| "exec Done w = w"

definition run :: "effect list \<Rightarrow> world \<Rightarrow> world" where
  "run es w = fold exec es w"

definition run_event :: "receipts_hook \<Rightarrow> webhook_event \<Rightarrow> world \<Rightarrow> world" where
  "run_event hook event w = run (fst (process_event hook event)) w"

definition run_delayed_job ::
  "(string option \<Rightarrow> string + string) \<Rightarrow> receipts_hook \<Rightarrow> string option list \<Rightarrow>
   string \<Rightarrow> world \<Rightarrow> world" where
  "run_delayed_job identities_get hook arrival messageId w =
     run (delayed_job identities_get hook arrival messageId
            (redis w (redis_key hook messageId))) w"

text \<open>The jobs a list of effects saves, and how often it calls \<^verbatim>\<open>done()\<close>.\<close>

definition jobs_of :: "effect list \<Rightarrow> job list" where
  "jobs_of es = concat (map (\<lambda>e. case e of Create_job j \<Rightarrow> [j] | _ \<Rightarrow> []) es)"

definition done_calls :: "effect list \<Rightarrow> nat" where
  "done_calls es = length (filter (\<lambda>e. e = Done) es)"

section \<open>The recipients as the specification words them\<close>

text \<open>
  The specification's enumeration of the recipients: the user ids of the snapshot's
  recipient-status map whose status is watched, in the map's stored order. It is
  stated here to be compared with \<open>recipients_of\<close>, which is the code.
\<close>

definition insertion_order_recipients ::
  "string list \<Rightarrow> (string \<times> string) list \<Rightarrow> string list" where
  "insertion_order_recipients statuses stored =
     map fst (filter (\<lambda>(userId, st). st \<in> set statuses) stored)"

section \<open>Example inputs\<close>

text \<open>
  The hook of the documentation's example (\<^verbatim>\<open>receipts: {delay: '10 minutes', ...}\<close>, no
  \<^verbatim>\<open>delay\<close> at the top level), the hook the service makes of it, and some messages,
  events and request bodies.
\<close>

definition documented_hook :: hook where
  "documented_hook =
     \<lparr> name = ''Message Read Monitor'', path = ''/message-read-monitor'', events = [],
       delay = Undefined,
       receipts = \<lparr> receipts_delay = Str ''10 minutes'', reportForStatus = [''sent''],
                    identities = Off \<rparr> \<rparr>"

definition ex_hook :: "identities_cfg \<Rightarrow> receipts_hook" where
  "ex_hook cfg =
     \<lparr> name = ''Monitor:receipts'', path = ''/monitor'', events = [], delay = Undefined,
       receipts = \<lparr> receipts_delay = Num 600000, reportForStatus = [''sent'', ''delivered''],
                    identities = cfg \<rparr>,
       originalName = ''Monitor'' \<rparr>"

definition ex_message :: "sender_obj \<Rightarrow> (string \<times> string) list \<Rightarrow> message_obj" where
  "ex_message from statuses =
     \<lparr> message_id = ''m1'', sender = from, recipient_status = statuses, parts = ''hello'' \<rparr>"

definition user_sender :: sender_obj where
  "user_sender = \<lparr> user_id = Some ''alice'', sender_name = None \<rparr>"

definition bot_sender :: sender_obj where
  "bot_sender = \<lparr> user_id = None, sender_name = Some ''bot-service'' \<rparr>"

definition ex_event :: "string \<Rightarrow> message_obj option \<Rightarrow> webhook_event" where
  "ex_event t m =
     \<lparr> title = ''Monitor:receipts'', timestamp = ''2016-01-01T00:00:00Z'', type = t,
       conversation = None, event_message = m \<rparr>"

definition ex_body :: "string \<Rightarrow> message_obj option \<Rightarrow> webhook_body" where
  "ex_body cfg m =
     \<lparr> event_type = ''message.sent'', event_created_at = ''2016-01-01T00:00:00Z'',
       body_conversation = None, body_message = m, config_name = cfg \<rparr>"

definition offline_directory :: "string option \<Rightarrow> string + string" where
  "offline_directory userId = Inl ''offline''"


definition empty_world :: world where
  "empty_world = \<lparr> redis = (\<lambda>k. None), queue = [] \<rparr>"

section \<open>Facts about the built-ins and the effect lists\<close>

lemma indexOf_ge: "-1 \<le> indexOf s x"
  by (induction s) (auto simp: Let_def)

lemma indexOf_0_prefix: "indexOf s x = 0 \<longleftrightarrow> prefix x s"
proof (cases s)
  case Nil
  then show ?thesis by auto
next
  case (Cons c t)
  have "-1 \<le> indexOf t x" by (rule indexOf_ge)
  then show ?thesis using Cons by (auto simp: Let_def)
qed

lemma namespaced_variant:
  "prefix (a @ '':'') w \<longleftrightarrow> (\<exists>suffix. w = a @ '':'' @ suffix)"
  by (auto simp: prefix_def)

lemma run_simps:
  "run [] w = w"
  "run (e # es) w = run es (exec e w)"
  by (simp_all add: run_def)

lemma jobs_of_simps:
  "jobs_of [] = []"
  "jobs_of (Create_job j # es) = j # jobs_of es"
  "jobs_of (Redis_set k v a # es) = jobs_of es"
  "jobs_of (Redis_get k # es) = jobs_of es"
  "jobs_of (Redis_del k # es) = jobs_of es"
  "jobs_of (Get_user u # es) = jobs_of es"
  "jobs_of (Done # es) = jobs_of es"
  "jobs_of (es @ fs) = jobs_of es @ jobs_of fs"
  by (simp_all add: jobs_of_def)

lemma done_calls_simps:
  "done_calls [] = 0"
  "done_calls (Done # es) = Suc (done_calls es)"
  "done_calls (Create_job j # es) = done_calls es"
  "done_calls (Redis_set k v a # es) = done_calls es"
  "done_calls (Redis_get k # es) = done_calls es"
  "done_calls (Redis_del k # es) = done_calls es"
  "done_calls (Get_user u # es) = done_calls es"
  "done_calls (es @ fs) = done_calls es + done_calls fs"
  by (simp_all add: done_calls_def)

lemma done_calls_0: "done_calls es = 0 \<longleftrightarrow> Done \<notin> set es"
  by (induction es) (auto simp: done_calls_def)

lemma Done_notin_fan_in:
  "Done \<notin> set (fan_in hook message recipients n cbs h c)"
  by (induction cbs arbitrary: h c) (auto simp: Let_def)

lemma done_calls_processMessage:
  "done_calls (fst (processMessage g hook arrival message)) = 0 \<and>
   done_calls (snd (processMessage g hook arrival message)) = 0"
  by (cases "identities (receipts hook)")
     (auto simp: processMessage_def Let_def done_calls_0 Done_notin_fan_in)

lemma done_calls_delayed_job:
  "done_calls (delayed_job g hook arrival messageId reply) = 1"
proof (cases reply)
  case None
  then show ?thesis by (simp add: delayed_job_def done_calls_simps)
next
  case (Some t)
  obtain now later where p: "processMessage g hook arrival (JSON_parse t) = (now, later)"
    by (cases "processMessage g hook arrival (JSON_parse t)")
  have "done_calls now = 0" "done_calls later = 0"
    using done_calls_processMessage [of g hook arrival "JSON_parse t"] p by simp_all
  then show ?thesis using Some p by (simp add: delayed_job_def done_calls_simps)
qed

lemma array_indexOf_ge: "-1 \<le> array_indexOf xs x"
  by (induction xs) (auto simp: Let_def)

lemma array_indexOf_mem: "array_indexOf xs x \<noteq> -1 \<longleftrightarrow> x \<in> set xs"
proof (induction xs)
  case Nil
  then show ?case by simp
next
  case (Cons y ys)
  have "-1 \<le> array_indexOf ys x" by (rule array_indexOf_ge)
  then show ?case using Cons by (auto simp: Let_def)
qed

lemma map_fst_insort_key:
  "map fst (insort_key (\<lambda>p. f (fst p)) x xs) = insort_key f (fst x) (map fst xs)"
  by (induction xs) simp_all

lemma map_fst_sort_key:
  "map fst (sort_key (\<lambda>p. f (fst p)) xs) = sort_key f (map fst xs)"
  by (induction xs) (simp_all add: map_fst_insort_key)

lemma Object_keys_stringify_order: "Object_keys obj = map fst (stringify_order obj)"
  by (simp add: Object_keys_def stringify_order_def map_fst_sort_key filter_map comp_def)

lemma set_stringify_order: "set (stringify_order obj) = set obj"
  by (auto simp: stringify_order_def)

lemma distinct_split_filter:
  "distinct (filter P xs) \<Longrightarrow> distinct (filter (\<lambda>x. \<not> P x) xs) \<Longrightarrow> distinct xs"
  by (induction xs) (auto split: if_splits)

lemma distinct_Object_keys: "distinct (Object_keys obj) \<longleftrightarrow> distinct (map fst obj)"
proof
  assume "distinct (Object_keys obj)"
  then show "distinct (map fst obj)"
    by (auto simp: Object_keys_def Let_def intro: distinct_split_filter [where P = is_array_index])
next
  assume "distinct (map fst obj)"
  then show "distinct (Object_keys obj)"
    by (auto simp: Object_keys_def Let_def)
qed

lemma filter_keys_watched:
  assumes "distinct (map fst rs)" and "set ps = set rs"
  shows "filter (\<lambda>userId. case map_of rs userId of None \<Rightarrow> False
                          | Some st \<Rightarrow> array_indexOf statuses st \<noteq> -1) (map fst ps) =
         map fst (filter (\<lambda>(userId, st). st \<in> set statuses) ps)"
proof -
  have "\<And>p. p \<in> set ps \<Longrightarrow> map_of rs (fst p) = Some (snd p)"
    using assms by (simp add: map_of_eq_Some_iff)
  then show ?thesis
    unfolding filter_map
    by (intro arg_cong [where f = "map fst"] filter_cong)
       (auto simp: array_indexOf_mem split: prod.splits)
qed

lemma recipients_of_stored:
  assumes "distinct (map fst (stored_recipient_status snapshot))"
  shows "recipients_of statuses (JSON_parse snapshot) =
           insertion_order_recipients statuses (stored_recipient_status snapshot)"
proof -
  let ?rs = "recipient_status (JSON_parse snapshot)"
  have d: "distinct (map fst ?rs)"
    using assms
    by (simp add: stored_recipient_status_def Object_keys_stringify_order [symmetric]
          distinct_Object_keys)
  show ?thesis
    unfolding recipients_of_def insertion_order_recipients_def stored_recipient_status_def
      Object_keys_stringify_order
    by (rule filter_keys_watched [OF d set_stringify_order])
qed

lemma stringify_order_idem: "stringify_order (stringify_order obj) = stringify_order obj"
proof -
  let ?A = "\<lambda>p. is_array_index (fst p)"
  let ?k = "\<lambda>p. index_value (fst p)"
  let ?S = "sort_key ?k (filter ?A obj)"
  have a: "filter ?A ?S = ?S" by (simp add: filter_sort)
  have b: "filter (\<lambda>p. \<not> ?A p) ?S = []" by (simp add: filter_sort)
  have c: "sort_key ?k ?S = ?S" by (rule sort_key_id_if_sorted) simp
  show ?thesis
    unfolding stringify_order_def filter_append a b by (simp add: c)
qed

lemma Object_keys_stored:
  "Object_keys (stored_recipient_status snapshot) = map fst (stored_recipient_status snapshot)"
  unfolding stored_recipient_status_def Object_keys_stringify_order stringify_order_idem ..

lemma set_insertion_order:
  "set (insertion_order_recipients statuses stored) =
     {userId. \<exists>st. (userId, st) \<in> set stored \<and> st \<in> set statuses}"
  unfolding insertion_order_recipients_def by force

lemma distinct_insertion_order:
  "distinct (map fst stored) \<Longrightarrow> distinct (insertion_order_recipients statuses stored)"
  unfolding insertion_order_recipients_def by (rule distinct_map_filter)

lemma no_recipients_no_job:
  "recipients_of (reportForStatus (receipts hook)) message = [] \<Longrightarrow>
   delayed_job g hook arrival messageId (Some (JSON_stringify message)) =
     [Redis_get (redis_key hook messageId), Redis_del (redis_key hook messageId), Done]"
  by (simp add: delayed_job_def processMessage_def)

lemma fan_in_creates_jobs:
  "e \<in> set (fan_in hook message recipients n cbs h c) \<Longrightarrow> \<exists>j. e = Create_job j"
  by (induction cbs arbitrary: h c) (auto simp: Let_def split: if_splits)

lemma processMessage_effects:
  "e \<in> set (fst (processMessage g hook arrival message)) \<union>
       set (snd (processMessage g hook arrival message)) \<Longrightarrow>
   (\<exists>j. e = Create_job j) \<or> (\<exists>u. e = Get_user u)"
  by (cases "identities (receipts hook)")
     (auto simp: processMessage_def Let_def split: if_splits dest: fan_in_creates_jobs)


lemma fan_in_emits:
  "fan_in hook message recipients n cbs h c =
     (if c < n \<and> n \<le> c + length cbs
      then [Create_job (createJob hook message recipients
              (fold (\<lambda>(userId, err, d). AList.update (prop_key userId) d) (take (n - c) cbs) h))]
      else [])"
proof (induction cbs arbitrary: h c)
  case Nil
  then show ?case by simp
next
  case (Cons cb cbs)
  obtain u e d where cb: "cb = (u, e, d)" by (cases cb)
  show ?case
  proof (cases "c + 1 = n")
    case True
    then have "n - c = 1" by simp
    then show ?thesis using True cb by (simp add: Cons.IH Let_def)
  next
    case False
    then have "c < n \<Longrightarrow> n - c = Suc (n - (c + 1))" by simp
    then show ?thesis using False cb by (auto simp add: Cons.IH Let_def)
  qed
qed




lemma run_append: "run (es @ fs) w = run fs (run es w)"
  by (simp add: run_def)

lemma queue_run: "queue (run es w) = queue w @ jobs_of es"
proof (induction es arbitrary: w)
  case Nil
  then show ?case by (simp add: run_simps jobs_of_simps)
next
  case (Cons e es)
  then show ?case by (cases e) (simp_all add: run_simps jobs_of_simps)
qed

lemma redis_run_unchanged:
  "(\<And>e. e \<in> set es \<Longrightarrow> (\<exists>j. e = Create_job j) \<or> (\<exists>u. e = Get_user u)) \<Longrightarrow>
   redis (run es w) = redis w"
proof (induction es arbitrary: w)
  case Nil
  then show ?case by (simp add: run_simps)
next
  case (Cons e es)
  have "(\<exists>j. e = Create_job j) \<or> (\<exists>u. e = Get_user u)" using Cons.prems by simp
  then have "redis (exec e w) = redis w" by auto
  moreover have "redis (run es (exec e w)) = redis (exec e w)"
    using Cons.prems by (intro Cons.IH) simp
  ultimately show ?case by (simp add: run_simps)
qed

lemma redis_run_delayed_job:
  "redis (run (delayed_job g hook arrival messageId (Some t)) w) =
     (redis w)(redis_key hook messageId := None)"
proof -
  obtain now later where p: "processMessage g hook arrival (JSON_parse t) = (now, later)"
    by (cases "processMessage g hook arrival (JSON_parse t)")
  have eff: "\<And>x. x \<in> set now \<union> set later \<Longrightarrow> (\<exists>j. x = Create_job j) \<or> (\<exists>u. x = Get_user u)"
    using processMessage_effects [of _ g hook arrival "JSON_parse t"] p by simp
  have a: "\<And>v. redis (run now v) = redis v" by (rule redis_run_unchanged) (use eff in auto)
  have b: "\<And>v. redis (run later v) = redis v" by (rule redis_run_unchanged) (use eff in auto)
  show ?thesis
    using p by (simp add: delayed_job_def run_simps run_append a b)
qed

lemma jobs_of_Get_user: "jobs_of (map (\<lambda>u. Get_user (f u)) us) = []"
  by (induction us) (simp_all add: jobs_of_simps)

lemma jobs_of_delayed_job:
  assumes "recipients_of (reportForStatus (receipts hook)) message = recipients"
    and "identities (receipts hook) \<noteq> Off \<longrightarrow> length arrival = Suc (length recipients)"
  shows "\<exists>ids. jobs_of (delayed_job g hook arrival messageId (Some (JSON_stringify message))) =
           (if recipients = [] then [] else [createJob hook message recipients ids]) \<and>
           (identities (receipts hook) = Off \<longrightarrow> ids = [])"
proof (cases "recipients = []")
  case True
  then show ?thesis using assms(1) by (simp add: no_recipients_no_job jobs_of_simps)
next
  case False
  show ?thesis
  proof (cases "identities (receipts hook)")
    case Off
    then show ?thesis using False assms(1)
      by (simp add: delayed_job_def processMessage_def jobs_of_simps)
  next
    case Builtin
    then show ?thesis using False assms
      by (auto simp: delayed_job_def processMessage_def jobs_of_simps jobs_of_Get_user
            fan_in_emits Let_def comp_def)
  next
    case (Custom f)
    then show ?thesis using False assms
      by (auto simp: delayed_job_def processMessage_def jobs_of_simps jobs_of_Get_user
            fan_in_emits Let_def comp_def)
  qed
qed

section \<open>The foreign-hook check of the listener\<close>




section \<open>The delay of the receipts service\<close>

text \<open>
  Claim C3, at the hook of the documentation's example. \<^verbatim>\<open>options.hooks.map\<close> computes
  \<^verbatim>\<open>ms(hook.delay)\<close>, and the example (like every hook written as documented) has its
  delay under \<^verbatim>\<open>receipts\<close>: the delay kept is \<^verbatim>\<open>ms(undefined)\<close>, whatever
  \<^verbatim>\<open>receipts.delay\<close> says, and the check armed on \<^verbatim>\<open>message.sent\<close> is delayed by it.
  The listener of the hook delays the event's job by 0.
\<close>

theorem documented_delay_not_read:
  "receipts_delay (receipts (receipts_map ms documented_hook)) = ms Undefined \<and>
   map job_delay (jobs_of (fst (process_event (receipts_map ms documented_hook)
      (ex_event ''message.sent'' (Some (ex_message user_sender [(''bob'', ''sent'')])))))) =
     [Some (ms Undefined)] \<and>
   listen_delay ms (delay (receipts_map ms documented_hook)) = Num 0"
  by (simp add: receipts_map_def documented_hook_def process_event_def ex_event_def
      ex_message_def user_sender_def truthy_str_def jobs_of_simps delayed_check_job_def
      listen_delay_def)

section \<open>The state machine of the event processor\<close>

text \<open>
  Claim C7. For an event with a message whose sender has no service name (the events
  the state machine is about): \<^verbatim>\<open>message.sent\<close> stores the snapshot under the message's
  key and arms exactly one delayed check, a job of type \<^verbatim>\<open>hook.name + ' delayed-job'\<close>
  that carries the message's id and is delayed by \<^verbatim>\<open>hook.receipts.delay\<close>;
  \<^verbatim>\<open>message.delivered\<close> and \<^verbatim>\<open>message.read\<close> overwrite the snapshot and save no job;
  \<^verbatim>\<open>message.deleted\<close> removes the snapshot. No event of another type arms a check,
  whatever it carries.
\<close>

theorem event_state_machine:
  assumes "event_message event = Some message"
    and "\<not> truthy_str (sender_name (sender message))"
  shows "(type event = ''message.sent'' \<longrightarrow>
            jobs_of (fst (process_event hook event)) =
              [\<lparr> job_type = name hook @ '' delayed-job'',
                  data = Delayed_check ''Process undelivered message'' (message_id message),
                  job_delay = Some (receipts_delay (receipts hook)),
                  attempts = 10, backoff = (''exponential'', 1000) \<rparr>] \<and>
            run_event hook event w =
              w\<lparr> redis := (redis w)(''layer-webhooks-'' @ name hook @ ''-'' @ message_id message
                              \<mapsto> JSON_stringify message),
                 queue := queue w @
                   [\<lparr> job_type = name hook @ '' delayed-job'',
                       data = Delayed_check ''Process undelivered message''
                                (message_id message),
                       job_delay = Some (receipts_delay (receipts hook)),
                       attempts = 10, backoff = (''exponential'', 1000) \<rparr>] \<rparr>) \<and>
         (type event = ''message.delivered'' \<or> type event = ''message.read'' \<longrightarrow>
            jobs_of (fst (process_event hook event)) = [] \<and>
            run_event hook event w =
              w\<lparr> redis := (redis w)(''layer-webhooks-'' @ name hook @ ''-'' @ message_id message
                              \<mapsto> JSON_stringify message) \<rparr>) \<and>
         (type event = ''message.deleted'' \<longrightarrow>
            jobs_of (fst (process_event hook event)) = [] \<and>
            run_event hook event w =
              w\<lparr> redis := (redis w)(''layer-webhooks-'' @ name hook @ ''-'' @ message_id message
                              := None) \<rparr>) \<and>
         (\<forall>ev. type ev \<noteq> ''message.sent'' \<longrightarrow> jobs_of (fst (process_event hook ev)) = [])"
  using assms
  by (auto simp: process_event_def run_event_def run_simps jobs_of_simps
        delayed_check_job_def redis_key_def REDIS_PREFIX_def split: option.splits)

theorem event_state_machine_witness:
  "jobs_of (fst (process_event (ex_hook Off)
      (ex_event ''message.sent'' (Some (ex_message user_sender [(''bob'', ''sent'')]))))) =
     [\<lparr> job_type = ''Monitor:receipts delayed-job'',
         data = Delayed_check ''Process undelivered message'' ''m1'',
         job_delay = Some (Num 600000),
         attempts = 10, backoff = (''exponential'', 1000) \<rparr>] \<and>
   jobs_of (fst (process_event (ex_hook Off)
      (ex_event ''message.read'' (Some (ex_message user_sender [(''bob'', ''read'')]))))) = [] \<and>
   run_event (ex_hook Off)
      (ex_event ''message.deleted'' (Some (ex_message user_sender [(''bob'', ''read'')])))
      empty_world =
     empty_world\<lparr> redis := (redis empty_world)(''layer-webhooks-Monitor:receipts-m1'' := None) \<rparr>"
  using event_state_machine [of "ex_event ''message.sent'' (Some (ex_message user_sender [(''bob'', ''sent'')]))"
          "ex_message user_sender [(''bob'', ''sent'')]" "ex_hook Off" empty_world]
        event_state_machine [of "ex_event ''message.read'' (Some (ex_message user_sender [(''bob'', ''read'')]))"
          "ex_message user_sender [(''bob'', ''read'')]" "ex_hook Off" empty_world]
        event_state_machine [of "ex_event ''message.deleted'' (Some (ex_message user_sender [(''bob'', ''read'')]))"
          "ex_message user_sender [(''bob'', ''read'')]" "ex_hook Off" empty_world]
  by (simp add: ex_event_def ex_message_def user_sender_def truthy_str_def ex_hook_def)

section \<open>Acknowledging jobs\<close>

text \<open>
  Claim C10, as the code has it. Every run of the event processor calls \<^verbatim>\<open>done()\<close>, and
  its last act is a call of \<^verbatim>\<open>done()\<close>. For an event without a message the \<^verbatim>\<open>finally\<close>
  block calls \<^verbatim>\<open>done()\<close> once and the TypeError then leaves the handler: a
  \<^verbatim>\<open>try\<close>/\<^verbatim>\<open>finally\<close> has no \<^verbatim>\<open>catch\<close>. For a message of a service sender \<^verbatim>\<open>done()\<close> is
  called twice; for any other message once. The delayed-job handler calls it once. The
  listener saves the event's job with ten attempts.
\<close>

theorem done_is_always_called:
  "1 \<le> done_calls (fst (process_event hook event)) \<and>
   last (fst (process_event hook event)) = Done \<and>
   (event_message event = None \<longrightarrow>
      process_event hook event = ([Done], Threw ''TypeError'')) \<and>
   (\<forall>message. event_message event = Some message \<longrightarrow>
      snd (process_event hook event) = Returned \<and>
      (truthy_str (sender_name (sender message)) \<longrightarrow>
         fst (process_event hook event) = [Done, Done]) \<and>
      (\<not> truthy_str (sender_name (sender message)) \<longrightarrow>
         done_calls (fst (process_event hook event)) = 1)) \<and>
   done_calls (delayed_job identities_get hook arrival messageId reply) = 1 \<and>
   attempts (event_job webhookName d body) = 10"
  by (auto simp: process_event_def done_calls_simps done_calls_delayed_job event_job_def
        split: option.splits)

theorem done_is_always_called_witness:
  "process_event (ex_hook Off) (ex_event ''conversation.created'' None) =
     ([Done], Threw ''TypeError'') \<and>
   fst (process_event (ex_hook Off)
      (ex_event ''message.sent'' (Some (ex_message bot_sender [(''bob'', ''sent'')])))) =
     [Done, Done] \<and>
   done_calls (fst (process_event (ex_hook Off)
      (ex_event ''message.sent'' (Some (ex_message user_sender [(''bob'', ''sent'')]))))) = 1"
  using done_is_always_called [of "ex_hook Off" "ex_event ''conversation.created'' None"]
        done_is_always_called [of "ex_hook Off"
          "ex_event ''message.sent'' (Some (ex_message bot_sender [(''bob'', ''sent'')]))"]
        done_is_always_called [of "ex_hook Off"
          "ex_event ''message.sent'' (Some (ex_message user_sender [(''bob'', ''sent'')]))"]
  by (simp add: ex_event_def ex_message_def user_sender_def bot_sender_def truthy_str_def)

text \<open>
  The exception of an event without a message is not swallowed: the handler calls
  \<^verbatim>\<open>done()\<close> and throws.
\<close>

theorem event_without_message_counterexample:
  "process_event (ex_hook Off) (ex_event ''conversation.created'' None) =
     ([Done], Threw ''TypeError'')"
  by (simp add: process_event_def ex_event_def)

section \<open>The recipients of a notification\<close>

text \<open>
  Claim C4. For every stored snapshot (its recipient-status map has distinct keys), the
  recipients the evaluator computes are the user ids of the snapshot's map whose status
  is in the filter, in the order in which the stored map lists them, without
  duplicates. \<^verbatim>\<open>processMessage\<close> does nothing when there are none, in the second variant
  of the file and in the first: the delayed-job handler then only reads and removes the
  snapshot and calls \<^verbatim>\<open>done()\<close>. When there are recipients, the first variant saves one
  job with them, and the second saves the job or asks for the identities of the sender
  and of them. \<^verbatim>\<open>Object.keys\<close> of the map as the stored text lists it keeps that order.
\<close>

theorem stored_snapshot_recipients:
  assumes "distinct (map fst (stored_recipient_status snapshot))"
  shows "recipients_of statuses (JSON_parse snapshot) =
           insertion_order_recipients statuses (stored_recipient_status snapshot) \<and>
         set (recipients_of statuses (JSON_parse snapshot)) =
           {userId. \<exists>st. (userId, st) \<in> set (stored_recipient_status snapshot) \<and>
                         st \<in> set statuses} \<and>
         distinct (recipients_of statuses (JSON_parse snapshot)) \<and>
         fst (processMessage g hook arrival (JSON_parse snapshot)) =
           (if recipients_of (reportForStatus (receipts hook)) (JSON_parse snapshot) = [] then []
            else case identities (receipts hook) of
                   Off \<Rightarrow>
                     [Create_job
                        \<lparr> job_type = originalName hook,
                          data = Notification (JSON_parse snapshot)
                                   (recipients_of (reportForStatus (receipts hook))
                                      (JSON_parse snapshot)) [],
                          job_delay = None, attempts = 10,
                          backoff = (''exponential'', 1000) \<rparr>]
                 | _ \<Rightarrow>
                     map Get_user
                       (user_id (sender (JSON_parse snapshot)) #
                        map Some (recipients_of (reportForStatus (receipts hook))
                                    (JSON_parse snapshot)))) \<and>
         (recipients_of (reportForStatus (receipts hook)) (JSON_parse snapshot) = [] \<longrightarrow>
            snd (processMessage g hook arrival (JSON_parse snapshot)) = [] \<and>
            delayed_job g hook arrival messageId (Some snapshot) =
              [Redis_get (''layer-webhooks-'' @ name hook @ ''-'' @ messageId),
               Redis_del (''layer-webhooks-'' @ name hook @ ''-'' @ messageId), Done]) \<and>
         processMessage_v1 hook_originalName statuses (JSON_parse snapshot) =
           (if recipients_of statuses (JSON_parse snapshot) = [] then []
            else [Create_job
                    \<lparr> job_type = hook_originalName,
                      data = Notification_v1 (JSON_parse snapshot)
                               (recipients_of statuses (JSON_parse snapshot)),
                      job_delay = None, attempts = 10,
                      backoff = (''exponential'', 1000) \<rparr>]) \<and>
         (recipients_of statuses (JSON_parse snapshot) = [] \<longrightarrow>
            delayed_job_v1 hook_originalName statuses messageId (Some snapshot) =
              [Redis_get (''layer-webhooks-'' @ messageId),
               Redis_del (''layer-webhooks-'' @ messageId), Done]) \<and>
         Object_keys (stored_recipient_status snapshot) =
           map fst (stored_recipient_status snapshot)"
proof -
  note eq = recipients_of_stored [OF assms, of statuses]
  have s: "set (recipients_of statuses (JSON_parse snapshot)) =
      {userId. \<exists>st. (userId, st) \<in> set (stored_recipient_status snapshot) \<and>
                    st \<in> set statuses}"
    unfolding eq by (rule set_insertion_order)
  have d: "distinct (recipients_of statuses (JSON_parse snapshot))"
    unfolding eq by (rule distinct_insertion_order [OF assms])
  have p: "fst (processMessage g hook arrival (JSON_parse snapshot)) =
           (if recipients_of (reportForStatus (receipts hook)) (JSON_parse snapshot) = [] then []
            else case identities (receipts hook) of
                   Off \<Rightarrow>
                     [Create_job
                        \<lparr> job_type = originalName hook,
                          data = Notification (JSON_parse snapshot)
                                   (recipients_of (reportForStatus (receipts hook))
                                      (JSON_parse snapshot)) [],
                          job_delay = None, attempts = 10,
                          backoff = (''exponential'', 1000) \<rparr>]
                 | _ \<Rightarrow>
                     map Get_user
                       (user_id (sender (JSON_parse snapshot)) #
                        map Some (recipients_of (reportForStatus (receipts hook))
                                    (JSON_parse snapshot))))"
    by (cases "identities (receipts hook)")
       (simp_all add: processMessage_def Let_def createJob_def)
  have e: "recipients_of (reportForStatus (receipts hook)) (JSON_parse snapshot) = [] \<longrightarrow>
            snd (processMessage g hook arrival (JSON_parse snapshot)) = [] \<and>
            delayed_job g hook arrival messageId (Some snapshot) =
              [Redis_get (''layer-webhooks-'' @ name hook @ ''-'' @ messageId),
               Redis_del (''layer-webhooks-'' @ name hook @ ''-'' @ messageId), Done]"
    by (simp add: processMessage_def delayed_job_def redis_key_def REDIS_PREFIX_def)
  have v1: "processMessage_v1 hook_originalName statuses (JSON_parse snapshot) =
           (if recipients_of statuses (JSON_parse snapshot) = [] then []
            else [Create_job
                    \<lparr> job_type = hook_originalName,
                      data = Notification_v1 (JSON_parse snapshot)
                               (recipients_of statuses (JSON_parse snapshot)),
                      job_delay = None, attempts = 10,
                      backoff = (''exponential'', 1000) \<rparr>])"
    by (simp add: processMessage_v1_def Let_def)
  have e1: "recipients_of statuses (JSON_parse snapshot) = [] \<longrightarrow>
            delayed_job_v1 hook_originalName statuses messageId (Some snapshot) =
              [Redis_get (''layer-webhooks-'' @ messageId),
               Redis_del (''layer-webhooks-'' @ messageId), Done]"
    by (simp add: delayed_job_v1_def processMessage_v1_def REDIS_PREFIX_def)
  show ?thesis
    using eq s d p e v1 e1 Object_keys_stored [of snapshot] by (intro conjI)
qed

text \<open>
  The example of the specification: \<open>A\<close> sent, \<open>B\<close> delivered, \<open>C\<close> read, watching sent
  and delivered. A snapshot with a numeric user id is stored with that id first, and the
  recipients come in that order. A snapshot whose recipients have all read the message
  fires no notification.
\<close>

theorem stored_snapshot_recipients_witness:
  "recipients_of [''sent'', ''delivered'']
      (JSON_parse (JSON_stringify
         (ex_message user_sender [(''A'', ''sent''), (''B'', ''delivered''), (''C'', ''read'')]))) =
     [''A'', ''B''] \<and>
   stored_recipient_status (JSON_stringify
      (ex_message user_sender [(''bob'', ''sent''), (''7'', ''sent'')])) =
     [(''7'', ''sent''), (''bob'', ''sent'')] \<and>
   recipients_of [''sent'']
      (JSON_parse (JSON_stringify
         (ex_message user_sender [(''bob'', ''sent''), (''7'', ''sent'')]))) = [''7'', ''bob''] \<and>
   delayed_job offline_directory (ex_hook Off) [] ''m1''
      (Some (JSON_stringify (ex_message user_sender [(''A'', ''read''), (''B'', ''read'')]))) =
     [Redis_get ''layer-webhooks-Monitor:receipts-m1'',
      Redis_del ''layer-webhooks-Monitor:receipts-m1'', Done] \<and>
   delayed_job_v1 ''Monitor'' [''sent'', ''delivered''] ''m1''
      (Some (JSON_stringify (ex_message user_sender [(''A'', ''read''), (''B'', ''read'')]))) =
     [Redis_get ''layer-webhooks-m1'', Redis_del ''layer-webhooks-m1'', Done]"
proof -
  let ?abc = "JSON_stringify
      (ex_message user_sender [(''A'', ''sent''), (''B'', ''delivered''), (''C'', ''read'')])"
  let ?num = "JSON_stringify (ex_message user_sender [(''bob'', ''sent''), (''7'', ''sent'')])"
  let ?read = "JSON_stringify (ex_message user_sender [(''A'', ''read''), (''B'', ''read'')])"
  have abc: "stored_recipient_status ?abc =
      [(''A'', ''sent''), (''B'', ''delivered''), (''C'', ''read'')]"
    by code_simp
  have num: "stored_recipient_status ?num = [(''7'', ''sent''), (''bob'', ''sent'')]"
    by code_simp
  have rd: "stored_recipient_status ?read = [(''A'', ''read''), (''B'', ''read'')]"
    by code_simp
  have d1: "distinct (map fst (stored_recipient_status ?abc))" unfolding abc by simp
  have d2: "distinct (map fst (stored_recipient_status ?num))" unfolding num by simp
  have d3: "distinct (map fst (stored_recipient_status ?read))" unfolding rd by simp
  have st: "reportForStatus (receipts (ex_hook Off)) = [''sent'', ''delivered'']"
           "name (ex_hook Off) = ''Monitor:receipts''"
    by (simp_all add: ex_hook_def)
  note t1 = stored_snapshot_recipients [OF d1, of "[''sent'', ''delivered'']", THEN conjunct1]
  note t2 = stored_snapshot_recipients [OF d2, of "[''sent'']", THEN conjunct1]
  note t3 = stored_snapshot_recipients [OF d3, of "[''sent'', ''delivered'']"
      offline_directory "ex_hook Off" "[]" "''m1''" "''Monitor''"]
  have r3: "recipients_of [''sent'', ''delivered''] (JSON_parse ?read) = []"
    using t3 [THEN conjunct1] by (simp add: rd insertion_order_recipients_def)
  have "recipients_of [''sent'', ''delivered''] (JSON_parse ?abc) = [''A'', ''B'']"
    using t1 by (simp add: abc insertion_order_recipients_def)
  moreover have "recipients_of [''sent''] (JSON_parse ?num) = [''7'', ''bob'']"
    using t2 by (simp add: num insertion_order_recipients_def)
  moreover have "delayed_job offline_directory (ex_hook Off) [] ''m1'' (Some ?read) =
     [Redis_get ''layer-webhooks-Monitor:receipts-m1'',
      Redis_del ''layer-webhooks-Monitor:receipts-m1'', Done]"
    using t3 r3 by (simp add: st)
  moreover have "delayed_job_v1 ''Monitor'' [''sent'', ''delivered''] ''m1'' (Some ?read) =
     [Redis_get ''layer-webhooks-m1'', Redis_del ''layer-webhooks-m1'', Done]"
    using t3 r3 by simp
  ultimately show ?thesis using num by simp
qed

section \<open>Messages of service senders\<close>

text \<open>
  Claim C6. For an event that carries a message whose sender has a service name and no
  user id: the listener saves no job for it, whatever else the request holds; when the
  event reaches the guard (it names this webhook, so it passes the foreign-hook check)
  the POST handler answers 200, and so does the whole route for a request whose
  signature is valid; the event processor, were such an event delivered to it, calls
  \<^verbatim>\<open>done()\<close> and returns, saving no job and leaving redis and the queue as they were.
\<close>

theorem bot_echo_suppressed:
  assumes "truthy_str (sender_name (sender message))"
    and "\<not> truthy_str (user_id (sender message))"
  shows "(body_message body = Some message \<longrightarrow>
            snd (post_handler webhookName d body) = [] \<and>
            snd (app_post hmac_sha1_hex secret webhookName d utf8safe signature body) = [] \<and>
            (config_name body = webhookName \<or>
             (\<exists>suffix. webhookName = config_name body @ '':'' @ suffix) \<longrightarrow>
               post_handler webhookName d body = (200, []) \<and>
               (handleValidation hmac_sha1_hex secret utf8safe signature \<longrightarrow>
                  app_post hmac_sha1_hex secret webhookName d utf8safe signature body =
                    (200, [])))) \<and>
         (event_message event = Some message \<longrightarrow>
            process_event hook event = ([Done, Done], Returned) \<and>
            jobs_of (fst (process_event hook event)) = [] \<and>
            run_event hook event w = w)"
  using assms
  by (auto simp: post_handler_def app_post_def indexOf_0_prefix namespaced_variant
        process_event_def run_event_def run_simps jobs_of_simps)

theorem bot_echo_suppressed_witness:
  "post_handler ''Monitor:receipts'' (Num 0)
       (ex_body ''Monitor'' (Some (ex_message bot_sender [(''bob'', ''sent'')]))) = (200, []) \<and>
   app_post (\<lambda>key payload. ''5f1d'') ''secret'' ''Monitor:receipts'' (Num 0) ''{}'' (Some ''5f1d'')
       (ex_body ''Monitor'' (Some (ex_message bot_sender [(''bob'', ''sent'')]))) = (200, []) \<and>
   run_event (ex_hook Off)
       (ex_event ''message.sent'' (Some (ex_message bot_sender [(''bob'', ''sent'')])))
       empty_world = empty_world"
  using bot_echo_suppressed [of "ex_message bot_sender [(''bob'', ''sent'')]"
          "ex_body ''Monitor'' (Some (ex_message bot_sender [(''bob'', ''sent'')]))"
          "''Monitor:receipts''" "Num 0" "\<lambda>key payload. ''5f1d''" "''secret''" "''{}''"
          "Some ''5f1d''"
          "ex_event ''message.sent'' (Some (ex_message bot_sender [(''bob'', ''sent'')]))"
          "ex_hook Off" empty_world]
  by (simp add: ex_body_def ex_event_def ex_message_def bot_sender_def truthy_str_def
        handleValidation_def)

section \<open>The keys of the stored snapshots\<close>




section \<open>Identities from the Layer Identity Server\<close>



section \<open>One notification per fired check\<close>

text \<open>
  Claim C1, as the code has it. After the event processor has handled \<^verbatim>\<open>message.sent\<close>
  for a user's message, the snapshot is in redis. The delayed-job handler then saves
  exactly one job when the message has a recipient whose status is watched, and none
  when it has no such recipient; the job is saved under the hook's original name with
  the message, the recipients and the identities (none when identities are off). It
  removes the snapshot either way, and a second delivery of the same delayed job finds
  nothing and changes nothing. With identities on, the lookups are taken to answer
  once each, in any order. The original name of the hook the service makes is the name
  the caller gave.
\<close>

theorem fire_time_notification:
  assumes "event_message event = Some message"
    and "\<not> truthy_str (sender_name (sender message))"
    and "type event = ''message.sent''"
    and "recipients_of (reportForStatus (receipts hook)) message = recipients"
    and "identities (receipts hook) \<noteq> Off \<longrightarrow>
           mset arrival = mset (user_id (sender message) # map Some recipients)"
    and "w1 = run_event hook event w"
    and "w2 = run_delayed_job identities_get hook arrival (message_id message) w1"
  shows "redis w1 (redis_key hook (message_id message)) = Some (JSON_stringify message) \<and>
         (\<exists>ids. queue w2 = queue w1 @
             (if recipients = [] then []
              else [\<lparr> job_type = originalName hook,
                      data = Notification message recipients ids,
                      job_delay = None, attempts = 10,
                      backoff = (''exponential'', 1000) \<rparr>]) \<and>
             (identities (receipts hook) = Off \<longrightarrow> ids = [])) \<and>
         redis w2 = (redis w1)(redis_key hook (message_id message) := None) \<and>
         run_delayed_job identities_get hook arrival' (message_id message) w2 = w2 \<and>
         originalName (receipts_map ms h) = name h"
proof -
  let ?key = "redis_key hook (message_id message)"
  have r1: "redis w1 ?key = Some (JSON_stringify message)"
    using assms(1-3,6) by (simp add: run_event_def process_event_def run_simps)
  have w2: "w2 = run (delayed_job identities_get hook arrival (message_id message)
                        (Some (JSON_stringify message))) w1"
    using assms(7) r1 by (simp add: run_delayed_job_def)
  have len: "identities (receipts hook) \<noteq> Off \<longrightarrow> length arrival = Suc (length recipients)"
    using assms(5) by (auto dest: arg_cong [where f = size])
  from jobs_of_delayed_job [OF assms(4) len, of identities_get "message_id message"]
  obtain ids where
    j: "jobs_of (delayed_job identities_get hook arrival (message_id message)
          (Some (JSON_stringify message))) =
        (if recipients = [] then [] else [createJob hook message recipients ids])"
    and off: "identities (receipts hook) = Off \<longrightarrow> ids = []"
    by blast
  have q: "queue w2 = queue w1 @
      (if recipients = [] then [] else [createJob hook message recipients ids])"
    unfolding w2 queue_run j ..
  have r2: "redis w2 = (redis w1)(?key := None)"
    unfolding w2 by (rule redis_run_delayed_job)
  have again: "run_delayed_job identities_get hook arrival' (message_id message) w2 = w2"
    using r2 by (simp add: run_delayed_job_def delayed_job_def run_simps)
  show ?thesis
    using r1 q off r2 again by (auto simp: createJob_def receipts_map_def)
qed

theorem fire_time_notification_witness:
  "queue (run_delayed_job offline_directory (ex_hook Off) [] ''m1''
      (run_event (ex_hook Off)
         (ex_event ''message.sent'' (Some (ex_message user_sender [(''bob'', ''sent'')])))
         empty_world)) =
     [delayed_check_job (ex_hook Off) (ex_message user_sender [(''bob'', ''sent'')]),
      \<lparr> job_type = ''Monitor'',
        data = Notification (ex_message user_sender [(''bob'', ''sent'')]) [''bob''] [],
        job_delay = None, attempts = 10, backoff = (''exponential'', 1000) \<rparr>] \<and>
   run_delayed_job offline_directory (ex_hook Off) [] ''m1''
     (run_delayed_job offline_directory (ex_hook Off) [] ''m1''
        (run_event (ex_hook Off)
           (ex_event ''message.sent'' (Some (ex_message user_sender [(''bob'', ''sent'')])))
           empty_world)) =
   run_delayed_job offline_directory (ex_hook Off) [] ''m1''
     (run_event (ex_hook Off)
        (ex_event ''message.sent'' (Some (ex_message user_sender [(''bob'', ''sent'')])))
        empty_world)"
proof -
  let ?m = "ex_message user_sender [(''bob'', ''sent'')]"
  let ?ev = "ex_event ''message.sent'' (Some ?m)"
  let ?w1 = "run_event (ex_hook Off) ?ev empty_world"
  let ?w2 = "run_delayed_job offline_directory (ex_hook Off) [] (message_id ?m) ?w1"
  have h1: "event_message ?ev = Some ?m"
    by (simp add: ex_event_def)
  have h2: "\<not> truthy_str (sender_name (sender ?m))"
    by (simp add: ex_message_def user_sender_def truthy_str_def)
  have h3: "type ?ev = ''message.sent''"
    by (simp add: ex_event_def)
  have h4: "recipients_of (reportForStatus (receipts (ex_hook Off))) ?m = [''bob'']"
    by code_simp
  have h5: "identities (receipts (ex_hook Off)) \<noteq> Off \<longrightarrow>
              mset [] = mset (user_id (sender ?m) # map Some [''bob''])"
    by (simp add: ex_hook_def)
  have off: "identities (receipts (ex_hook Off)) = Off" "originalName (ex_hook Off) = ''Monitor''"
    by (simp_all add: ex_hook_def)
  have id: "message_id ?m = ''m1''"
    by (simp add: ex_message_def)
  have q1: "queue ?w1 = [delayed_check_job (ex_hook Off) ?m]"
    using h2 by (simp add: run_event_def process_event_def ex_event_def run_simps
        empty_world_def)
  from fire_time_notification [OF h1 h2 h3 h4 h5 refl refl, of empty_world offline_directory "[]"]
  show ?thesis
    using off q1 unfolding id by auto
qed

text \<open>
  A snapshot whose recipients have all read the message is present when the check
  fires, and the check saves no job: the queue holds what it held before.
\<close>

theorem all_read_counterexample:
  "redis (run_event (ex_hook Off)
       (ex_event ''message.sent'' (Some (ex_message user_sender [(''bob'', ''read'')])))
       empty_world) (redis_key (ex_hook Off) ''m1'') =
     Some (JSON_stringify (ex_message user_sender [(''bob'', ''read'')])) \<and>
   queue (run_delayed_job offline_directory (ex_hook Off) [] ''m1''
      (run_event (ex_hook Off)
         (ex_event ''message.sent'' (Some (ex_message user_sender [(''bob'', ''read'')])))
         empty_world)) =
     [delayed_check_job (ex_hook Off) (ex_message user_sender [(''bob'', ''read'')])]"
proof -
  let ?m = "ex_message user_sender [(''bob'', ''read'')]"
  have r: "recipients_of (reportForStatus (receipts (ex_hook Off))) ?m = []"
    by code_simp
  have b: "\<not> truthy_str (sender_name (sender ?m))" "message_id ?m = ''m1''"
    by (simp_all add: ex_message_def user_sender_def truthy_str_def)
  show ?thesis
    using b by (simp add: run_event_def process_event_def ex_event_def run_simps
        empty_world_def run_delayed_job_def no_recipients_no_job [OF r])
qed

section \<open>Deleted messages\<close>

text \<open>
  Whatever events came before, once the event processor has handled \<^verbatim>\<open>message.deleted\<close>
  for a user's message, redis holds no snapshot under the message's key.
\<close>

theorem deleted_leaves_absent:
  assumes "event_message deleted = Some message"
    and "\<not> truthy_str (sender_name (sender message))"
    and "type deleted = ''message.deleted''"
  shows "redis (run_event hook deleted (fold (run_event hook) evs w))
           (redis_key hook (message_id message)) = None"
  using assms by (simp add: run_event_def process_event_def run_simps)

theorem deleted_leaves_absent_witness:
  "redis (run_event (ex_hook Off)
       (ex_event ''message.deleted'' (Some (ex_message user_sender [(''bob'', ''read'')])))
       (fold (run_event (ex_hook Off))
          [ex_event ''message.sent'' (Some (ex_message user_sender [(''bob'', ''sent'')])),
           ex_event ''message.delivered'' (Some (ex_message user_sender [(''bob'', ''delivered'')])),
           ex_event ''message.read'' (Some (ex_message user_sender [(''bob'', ''read'')]))]
          empty_world))
     (redis_key (ex_hook Off) ''m1'') = None"
  using deleted_leaves_absent [of
      "ex_event ''message.deleted'' (Some (ex_message user_sender [(''bob'', ''read'')]))"
      "ex_message user_sender [(''bob'', ''read'')]" "ex_hook Off"
      "[ex_event ''message.sent'' (Some (ex_message user_sender [(''bob'', ''sent'')])),
        ex_event ''message.delivered'' (Some (ex_message user_sender [(''bob'', ''delivered'')])),
        ex_event ''message.read'' (Some (ex_message user_sender [(''bob'', ''read'')]))]"
      empty_world]
  by (simp add: ex_event_def ex_message_def user_sender_def truthy_str_def)

text \<open>
  A message sent and then deleted: when the armed check fires, the delayed-job handler
  finds no snapshot, saves no job and leaves redis as it was. The queue holds only the
  delayed check that \<^verbatim>\<open>message.sent\<close> armed.
\<close>

theorem deletion_cancels_check:
  assumes "event_message sent = Some message"
    and "\<not> truthy_str (sender_name (sender message))"
    and "type sent = ''message.sent''"
    and "event_message deleted = Some message'"
    and "\<not> truthy_str (sender_name (sender message'))"
    and "type deleted = ''message.deleted''"
    and "message_id message' = message_id message"
  shows "run_delayed_job identities_get hook arrival (message_id message)
           (run_event hook deleted (run_event hook sent w)) =
         w\<lparr> redis := (redis w)(redis_key hook (message_id message) := None),
            queue := queue w @ [delayed_check_job hook message] \<rparr>"
  using assms
  by (simp add: run_event_def process_event_def run_simps run_delayed_job_def delayed_job_def)

theorem deletion_cancels_check_witness:
  "run_delayed_job offline_directory (ex_hook Builtin) [] ''m1''
     (run_event (ex_hook Builtin)
        (ex_event ''message.deleted'' (Some (ex_message user_sender [(''bob'', ''sent'')])))
        (run_event (ex_hook Builtin)
           (ex_event ''message.sent'' (Some (ex_message user_sender [(''bob'', ''sent'')])))
           empty_world)) =
   empty_world\<lparr> redis := (redis empty_world)(redis_key (ex_hook Builtin) ''m1'' := None),
     queue := [delayed_check_job (ex_hook Builtin) (ex_message user_sender [(''bob'', ''sent'')])] \<rparr>"
  using deletion_cancels_check [of
      "ex_event ''message.sent'' (Some (ex_message user_sender [(''bob'', ''sent'')]))"
      "ex_message user_sender [(''bob'', ''sent'')]"
      "ex_event ''message.deleted'' (Some (ex_message user_sender [(''bob'', ''sent'')]))"
      "ex_message user_sender [(''bob'', ''sent'')]"
      offline_directory "ex_hook Builtin" "[]" empty_world]
  by (simp add: ex_event_def ex_message_def user_sender_def truthy_str_def empty_world_def)

end
